theory Spec2Isabelle
  imports Complex_Main "HOL-Library.Sublist"
begin

section \<open>Values of the host language\<close>

text \<open>
  A JavaScript value that was thrown, seen through the properties the code reads:
  \<^verbatim>\<open>error instanceof Error\<close>, \<^verbatim>\<open>axios.isAxiosError(error)\<close>, \<^verbatim>\<open>error.message\<close>,
  \<^verbatim>\<open>error.stack\<close> and, for an axios error that carries an HTTP response, the status
  with \<^verbatim>\<open>error.response.data.error\<close>. \<open>None\<close> is \<^verbatim>\<open>undefined\<close>.
\<close>

record thrown =
  instanceofError :: bool
  isAxiosError :: bool
  message :: "string option"
  stack :: "string option"
  response :: "(nat \<times> string option) option"

text \<open>Truthiness of an optional string, and \<^verbatim>\<open>a || b\<close> on optional strings.\<close>

definition truthy :: "string option \<Rightarrow> bool" where
  "truthy x = (case x of None \<Rightarrow> False | Some s \<Rightarrow> s \<noteq> [])"

definition or_else :: "string option \<Rightarrow> string option \<Rightarrow> string option" where
  "or_else a b = (if truthy a then a else b)"

text \<open>Decimal rendering of an integer, as a template literal renders a number.\<close>

definition digit_char :: "nat \<Rightarrow> char" where
  "digit_char d = ''0123456789'' ! d"

fun show_nat :: "nat \<Rightarrow> string" where
  "show_nat n = (if n < 10 then [digit_char n] else show_nat (n div 10) @ [digit_char (n mod 10)])"

declare show_nat.simps [simp del]

definition show_int :: "int \<Rightarrow> string" where
  "show_int i = (if i < 0 then CHR ''-'' # show_nat (nat (- i)) else show_nat (nat i))"

text \<open>
  The numbers of the success rate. Division of two counts gives \<open>NaN\<close> for \<open>0 / 0\<close> and
  \<open>Infinity\<close> for \<open>n / 0\<close>; a finite quotient is kept as the exact rational (the rounding
  error of a double is far below the two decimals that \<^verbatim>\<open>toFixed(2)\<close> prints).
\<close>

datatype jsnum = NaN | Infinity | Finite rat

definition js_divide :: "nat \<Rightarrow> nat \<Rightarrow> jsnum" where
  "js_divide a b =
     (if b = 0 then (if a = 0 then NaN else Infinity) else Finite (of_nat a / of_nat b))"

definition js_times :: "jsnum \<Rightarrow> nat \<Rightarrow> jsnum" where
  "js_times x k =
     (case x of
        NaN \<Rightarrow> NaN
      | Infinity \<Rightarrow> (if k = 0 then NaN else Infinity)
      | Finite r \<Rightarrow> Finite (r * of_nat k))"

definition toFixed2 :: "jsnum \<Rightarrow> string" where
  "toFixed2 x =
     (case x of
        NaN \<Rightarrow> ''NaN''
      | Infinity \<Rightarrow> ''Infinity''
      | Finite r \<Rightarrow>
          (let n = nat \<lfloor>\<bar>r\<bar> * 100 + 1 / 2\<rfloor>;
               body = show_nat (n div 100) @ ''.'' @
                      [digit_char (n mod 100 div 10), digit_char (n mod 10)]
           in if r < 0 \<and> n \<noteq> 0 then CHR ''-'' # body else body))"

section \<open>Data model\<close>

subsection \<open>Configuration (config/index.ts)\<close>

record config =
  SUPABASE_URL :: string
  SUPABASE_ANON_KEY :: string
  SUPABASE_SERVICE_ROLE_KEY :: string
  PULSE_API_BASE_URL :: string
  TEST_AREA :: string
  TEST_REGION :: string
  TEST_COUNTRY :: string
  TEST_TIMELINE :: string
  SLACK_WEBHOOK_URL :: "string option"
  DISCORD_WEBHOOK_URL :: "string option"
  ENABLE_SLACK_NOTIFICATIONS :: bool
  ENABLE_DISCORD_NOTIFICATIONS :: bool
  ENABLE_AUTO_HEALING :: bool
  LOG_LEVEL :: string

subsection \<open>The search API (services/pulse-api.ts)\<close>

record SearchRequest =
  query :: string
  area :: "string option"
  region :: "string option"
  country :: "string option"
  timeline :: "string option"
  category :: "string option"
  enableFallbacks :: "bool option"
  maxFallbacks :: "nat option"
  deviceId :: "string option"
  buttonClickCount :: "string option"

record timing =
  primary_ms :: "int option"
  fallback_ms :: "int option"
  total_ms :: int

record meta =
  cache_hit :: "bool option"
  original_count :: "int option"
  flyer_count :: "int option"
  total_items :: "int option"
  session_filtered :: "bool option"

text \<open>Result items are opaque to the harness: only their number is read.\<close>

type_synonym item = string

record SearchResponse =
  resp_success :: bool
  resp_data :: "item list"
  resp_source :: string
  resp_strategy :: string
  originalStrategy :: "string option"
  fallbackUsed :: "string option"
  fallbackChain :: "string list option"
  resp_timing :: "timing option"
  resp_meta :: "meta option"
  resp_timestamp :: int
  resp_error :: "string option"

subsection \<open>The fixture store (services/supabase.ts)\<close>

text \<open>
  \<open>entry_data\<close> is \<^verbatim>\<open>entry.response?.data\<close>; \<open>expire_at\<close> is the instant
  \<^verbatim>\<open>new Date(entry.expire_at)\<close> in milliseconds.
\<close>

record QueryCacheEntry =
  entry_id :: string
  prompt :: string
  entry_area :: string
  entry_region :: "string option"
  entry_country :: "string option"
  entry_timeline :: "string option"
  button_click_count :: "string option"
  entry_data :: "item list option"
  created_at :: int
  expire_at :: int

record recent_options =
  opt_area :: "string option"
  opt_region :: "string option"
  opt_country :: "string option"
  opt_timeline :: "string option"
  opt_buttonClickCount :: "string option"

text \<open>
  A query on table \<^verbatim>\<open>query_cache\<close>, newest first: the lower bound on \<^verbatim>\<open>expire_at\<close>,
  the equality filters or the \<^verbatim>\<open>ilike\<close> pattern, and the limit. The store answers with
  the pair \<^verbatim>\<open>{ data, error }\<close>.
\<close>

datatype db_query =
    RecentQuery int "(string \<times> string) list" nat
  | ByPromptQuery int string nat

record db_response =
  db_data :: "QueryCacheEntry list option"
  db_error :: "thrown option"

subsection \<open>Test results and the report (smoke-tests/index.ts)\<close>

datatype details =
    SupabaseDetails "(string \<times> string) option"
  | QueryCacheDetails nat "timing option" string "bool option" string
  | RagVectorDetails nat "timing option" string
  | StrategyDetails nat "timing option"
  | PerformanceDetails int int bool

record TestResult =
  testName :: string
  success :: bool
  duration :: int
  error :: "string option"
  details :: "details option"

record report =
  timestamp :: int
  totalTests :: nat
  passedTests :: nat
  failedTests :: nat
  hasFailures :: bool
  successRate :: string
  totalDuration :: string
  results :: "TestResult list"
  failures :: "TestResult list"

subsection \<open>Notification payloads (services/notifications.ts)\<close>

text \<open>
  The values of a details object. \<^verbatim>\<open>JSON.stringify\<close> is kept symbolic: the text of a
  defined value \<open>v\<close> is \<open>Json v\<close>, its first 1024 characters \<open>Substring1024 (Json v)\<close>,
  and \<^verbatim>\<open>JSON.stringify(undefined)\<close> is \<^verbatim>\<open>undefined\<close>. \<open>Instant t\<close> is the string
  \<^verbatim>\<open>toISOString()\<close> gives for the instant \<open>t\<close>.
\<close>

datatype js_value =
    Undefined
  | Str string
  | Instant int
  | FailureList "(string \<times> string option \<times> string) list"

datatype json_text = Json js_value | Substring1024 json_text

datatype webhook_payload =
    SlackPayload string "(string \<times> json_text option) list option"
  | DiscordPayload string "(string \<times> json_text) list option"

section \<open>The world outside the process\<close>

text \<open>
  Every awaited call leaves the process. The run keeps a record of the calls it issued;
  the world answers the \<open>n\<close>-th call of a run with the time the call takes (milliseconds)
  and its outcome. The axios client either resolves with the status and the body, or
  rejects with a thrown value: for a transport failure an axios error without a
  response, for a status outside 2xx an axios error with the response.
\<close>

datatype call =
    HttpGet string nat
  | HttpPost string SearchRequest
  | DbSelect db_query
  | WebhookPost string webhook_payload

record env =
  config :: config
  http_get :: "nat \<Rightarrow> string \<Rightarrow> nat \<Rightarrow> int \<times> (thrown + nat)"
  http_post :: "nat \<Rightarrow> string \<Rightarrow> SearchRequest \<Rightarrow> int \<times> (thrown + nat \<times> SearchResponse)"
  db_select :: "nat \<Rightarrow> db_query \<Rightarrow> int \<times> db_response"
  webhook_post :: "nat \<Rightarrow> string \<Rightarrow> webhook_payload \<Rightarrow> int \<times> (thrown + unit)"

text \<open>
  The state of a run: the runner's \<^verbatim>\<open>this.results\<close>, the clock read by \<^verbatim>\<open>Date.now()\<close>
  (it advances across awaited calls only), the calls issued so far and the reports
  written to the log.
\<close>

record state =
  this_results :: "TestResult list"
  clock :: int
  calls :: "call list"
  logged :: "report list"

text \<open>
  An asynchronous operation either resolves with a value or rejects with a thrown value,
  and leaves a state either way.
\<close>

type_synonym 'a io = "state \<Rightarrow> (thrown + 'a) \<times> state"

definition return_io :: "'a \<Rightarrow> 'a io" where
  "return_io x s = (Inr x, s)"

definition throw_io :: "thrown \<Rightarrow> 'a io" where
  "throw_io e s = (Inl e, s)"

definition bind_io :: "'a io \<Rightarrow> ('a \<Rightarrow> 'b io) \<Rightarrow> 'b io" where
  "bind_io m f s = (case m s of (Inl e, s') \<Rightarrow> (Inl e, s') | (Inr x, s') \<Rightarrow> f x s')"

definition try_catch :: "'a io \<Rightarrow> (thrown \<Rightarrow> 'a io) \<Rightarrow> 'a io" where
  "try_catch m h s = (case m s of (Inl e, s') \<Rightarrow> h e s' | (Inr x, s') \<Rightarrow> (Inr x, s'))"

fun for_each :: "'a list \<Rightarrow> ('a \<Rightarrow> unit io) \<Rightarrow> unit io" where
  "for_each [] f = return_io ()"
| "for_each (x # xs) f = bind_io (f x) (\<lambda>_. for_each xs f)"

definition date_now :: "int io" where
  "date_now s = (Inr (clock s), s)"

definition push_result :: "TestResult \<Rightarrow> unit io" where
  "push_result r s = (Inr (), s\<lparr>this_results := this_results s @ [r]\<rparr>)"

definition client_get :: "env \<Rightarrow> string \<Rightarrow> nat \<Rightarrow> nat io" where
  "client_get e url timeout s =
     (case http_get e (length (calls s)) url timeout of
        (dt, outcome) \<Rightarrow>
          (outcome, s\<lparr>clock := clock s + dt, calls := calls s @ [HttpGet url timeout]\<rparr>))"

definition client_post :: "env \<Rightarrow> string \<Rightarrow> SearchRequest \<Rightarrow> (nat \<times> SearchResponse) io" where
  "client_post e url request s =
     (case http_post e (length (calls s)) url request of
        (dt, outcome) \<Rightarrow>
          (outcome, s\<lparr>clock := clock s + dt, calls := calls s @ [HttpPost url request]\<rparr>))"

definition supabase_select :: "env \<Rightarrow> db_query \<Rightarrow> db_response io" where
  "supabase_select e q s =
     (case db_select e (length (calls s)) q of
        (dt, answer) \<Rightarrow>
          (Inr answer, s\<lparr>clock := clock s + dt, calls := calls s @ [DbSelect q]\<rparr>))"

definition axios_post :: "env \<Rightarrow> string \<Rightarrow> webhook_payload \<Rightarrow> unit io" where
  "axios_post e url payload s =
     (case webhook_post e (length (calls s)) url payload of
        (dt, outcome) \<Rightarrow>
          (outcome, s\<lparr>clock := clock s + dt, calls := calls s @ [WebhookPost url payload]\<rparr>))"

section \<open>Service client facade (services/pulse-api.ts)\<close>

definition searchWithStrategy :: "env \<Rightarrow> string \<Rightarrow> SearchRequest \<Rightarrow> SearchResponse io" where
  "searchWithStrategy e strategy request =
     try_catch
       (bind_io date_now (\<lambda>startTime.
        bind_io (client_post e (''/api/search/'' @ strategy) request) (\<lambda>response.
        bind_io date_now (\<lambda>finished.
        return_io (snd response)))))
       (\<lambda>err.
          if isAxiosError err then
            bind_io date_now (\<lambda>stamp.
            bind_io date_now (\<lambda>t1.
            bind_io date_now (\<lambda>t2.
            return_io
              \<lparr>resp_success = False,
               resp_data = [],
               resp_source = strategy,
               resp_strategy = strategy,
               originalStrategy = None,
               fallbackUsed = None,
               fallbackChain = None,
               resp_timing = Some \<lparr>primary_ms = None, fallback_ms = None, total_ms = t1 - t2\<rparr>,
               resp_meta = None,
               resp_timestamp = stamp,
               resp_error =
                 or_else (case response err of None \<Rightarrow> None | Some (status, server_error) \<Rightarrow> server_error)
                         (message err)\<rparr>)))
          else throw_io err)"

definition testRagVector :: "env \<Rightarrow> SearchRequest \<Rightarrow> SearchResponse io" where
  "testRagVector e request = searchWithStrategy e ''rag_vector'' request"

definition testQueryCache :: "env \<Rightarrow> SearchRequest \<Rightarrow> SearchResponse io" where
  "testQueryCache e request = searchWithStrategy e ''query_cache'' request"

definition testRagCache :: "env \<Rightarrow> SearchRequest \<Rightarrow> SearchResponse io" where
  "testRagCache e request = searchWithStrategy e ''rag_cache'' request"

definition testRagHybrid :: "env \<Rightarrow> SearchRequest \<Rightarrow> SearchResponse io" where
  "testRagHybrid e request = searchWithStrategy e ''rag_hybrid'' request"

definition testWebSearchLLM :: "env \<Rightarrow> SearchRequest \<Rightarrow> SearchResponse io" where
  "testWebSearchLLM e request = searchWithStrategy e ''web_search_llm'' request"

definition testCombined :: "env \<Rightarrow> SearchRequest \<Rightarrow> SearchResponse io" where
  "testCombined e request = searchWithStrategy e ''combined'' request"

definition healthCheck :: "env \<Rightarrow> bool io" where
  "healthCheck e =
     try_catch
       (bind_io (client_get e ''/health'' 5000) (\<lambda>status. return_io (status = 200)))
       (\<lambda>err. return_io False)"

section \<open>Fixture provider (services/supabase.ts)\<close>

definition eq_filter :: "string \<Rightarrow> string option \<Rightarrow> (string \<times> string) list" where
  "eq_filter column v = (if truthy v then (case v of None \<Rightarrow> [] | Some x \<Rightarrow> [(column, x)]) else [])"

definition recent_filters :: "recent_options option \<Rightarrow> (string \<times> string) list" where
  "recent_filters options =
     (case options of
        None \<Rightarrow> []
      | Some opts \<Rightarrow>
          eq_filter ''area'' (opt_area opts) @
          eq_filter ''region'' (opt_region opts) @
          eq_filter ''country'' (opt_country opts) @
          eq_filter ''timeline'' (opt_timeline opts) @
          eq_filter ''button_click_count'' (opt_buttonClickCount opts))"

definition getRecentCacheEntry :: "env \<Rightarrow> recent_options option \<Rightarrow> QueryCacheEntry option io" where
  "getRecentCacheEntry e options =
     try_catch
       (bind_io date_now (\<lambda>now.
        bind_io (supabase_select e (RecentQuery now (recent_filters options) 1)) (\<lambda>answer.
          case db_error answer of
            Some err \<Rightarrow> throw_io err
          | None \<Rightarrow>
              (case db_data answer of
                 None \<Rightarrow> return_io None
               | Some [] \<Rightarrow> return_io None
               | Some (first # _) \<Rightarrow> return_io (Some first)))))
       (\<lambda>err. throw_io err)"

definition getCacheEntriesByPrompt :: "env \<Rightarrow> string \<Rightarrow> nat \<Rightarrow> QueryCacheEntry list io" where
  "getCacheEntriesByPrompt e pattern limit =
     try_catch
       (bind_io date_now (\<lambda>now.
        bind_io (supabase_select e (ByPromptQuery now (''%'' @ pattern @ ''%'') limit)) (\<lambda>answer.
          case db_error answer of
            Some err \<Rightarrow> throw_io err
          | None \<Rightarrow> return_io (case db_data answer of None \<Rightarrow> [] | Some rows \<Rightarrow> rows))))
       (\<lambda>err. throw_io err)"

section \<open>Probes (smoke-tests/index.ts)\<close>

text \<open>
  Every probe reads the clock, runs its \<^verbatim>\<open>try\<close> block and, in its \<^verbatim>\<open>catch\<close> block,
  pushes a failed result with \<^verbatim>\<open>error instanceof Error ? error.message : 'Unknown error'\<close>.
  The \<^verbatim>\<open>try\<close> block of each probe is a definition of its own (suffix \<open>_try\<close>).
\<close>

definition caught_message :: "thrown \<Rightarrow> string option" where
  "caught_message err = (if instanceofError err then message err else Some ''Unknown error'')"

definition str_or :: "string option \<Rightarrow> string \<Rightarrow> string" where
  "str_or a d = (case a of None \<Rightarrow> d | Some x \<Rightarrow> (if x = [] then d else x))"

definition testAPIHealth_try :: "env \<Rightarrow> int \<Rightarrow> unit io" where
  "testAPIHealth_try e startTime =
     bind_io (healthCheck e) (\<lambda>isHealthy.
     bind_io date_now (\<lambda>finished.
     push_result
       \<lparr>testName = ''API Health Check'',
        success = isHealthy,
        duration = finished - startTime,
        error = (if isHealthy then None else Some ''API is not healthy''),
        details = None\<rparr>))"

definition testAPIHealth :: "env \<Rightarrow> unit io" where
  "testAPIHealth e =
     bind_io date_now (\<lambda>startTime.
     try_catch (testAPIHealth_try e startTime)
       (\<lambda>err.
          bind_io date_now (\<lambda>finished.
          push_result
            \<lparr>testName = ''API Health Check'',
             success = False,
             duration = finished - startTime,
             error = caught_message err,
             details = None\<rparr>)))"

definition testSupabaseConnection_try :: "env \<Rightarrow> int \<Rightarrow> unit io" where
  "testSupabaseConnection_try e startTime =
     bind_io (getRecentCacheEntry e None) (\<lambda>entry.
     bind_io date_now (\<lambda>finished.
     push_result
       \<lparr>testName = ''Supabase Connection'',
        success = (entry \<noteq> None),
        duration = finished - startTime,
        error = None,
        details =
          Some (SupabaseDetails
                  (case entry of None \<Rightarrow> None | Some x \<Rightarrow> Some (entry_id x, prompt x)))\<rparr>))"

definition testSupabaseConnection :: "env \<Rightarrow> unit io" where
  "testSupabaseConnection e =
     bind_io date_now (\<lambda>startTime.
     try_catch (testSupabaseConnection_try e startTime)
       (\<lambda>err.
          bind_io date_now (\<lambda>finished.
          push_result
            \<lparr>testName = ''Supabase Connection'',
             success = False,
             duration = finished - startTime,
             error = caught_message err,
             details = None\<rparr>)))"

text \<open>
  The fixture the query-cache probe accepts:
  \<^verbatim>\<open>entry.response?.data?.length > 0 && new Date(entry.expire_at) > new Date()\<close>.
\<close>

definition valid_entry :: "int \<Rightarrow> QueryCacheEntry \<Rightarrow> bool" where
  "valid_entry now entry =
     ((case entry_data entry of None \<Rightarrow> False | Some d \<Rightarrow> length d > 0) \<and> expire_at entry > now)"

definition testQueryCacheStrategy_try :: "env \<Rightarrow> int \<Rightarrow> unit io" where
  "testQueryCacheStrategy_try e startTime =
     bind_io (getCacheEntriesByPrompt e [] 5) (\<lambda>cacheEntries.
     bind_io date_now (\<lambda>now.
       case find (valid_entry now) cacheEntries of
         None \<Rightarrow>
           bind_io date_now (\<lambda>finished.
           push_result
             \<lparr>testName = ''Query Cache Strategy'',
              success = False,
              duration = finished - startTime,
              error = Some ''No valid cache entries found for testing'',
              details = None\<rparr>)
       | Some validEntry \<Rightarrow>
           bind_io (testQueryCache e
                      \<lparr>query = prompt validEntry,
                       area = Some (entry_area validEntry),
                       region = or_else (entry_region validEntry) None,
                       country = or_else (entry_country validEntry) None,
                       timeline = or_else (entry_timeline validEntry) None,
                       category = None,
                       enableFallbacks = Some False,
                       maxFallbacks = None,
                       deviceId = None,
                       buttonClickCount = or_else (button_click_count validEntry) None\<rparr>)
             (\<lambda>response.
           bind_io date_now (\<lambda>finished.
           push_result
             \<lparr>testName = ''Query Cache Strategy'',
              success = resp_success response,
              duration = finished - startTime,
              error = resp_error response,
              details =
                Some (QueryCacheDetails (length (resp_data response)) (resp_timing response)
                        (resp_source response)
                        (case resp_meta response of None \<Rightarrow> None | Some m \<Rightarrow> cache_hit m)
                        (prompt validEntry))\<rparr>))))"

definition testQueryCacheStrategy :: "env \<Rightarrow> unit io" where
  "testQueryCacheStrategy e =
     bind_io date_now (\<lambda>startTime.
     try_catch (testQueryCacheStrategy_try e startTime)
       (\<lambda>err.
          bind_io date_now (\<lambda>finished.
          push_result
            \<lparr>testName = ''Query Cache Strategy'',
             success = False,
             duration = finished - startTime,
             error = caught_message err,
             details = None\<rparr>)))"

definition testRagVectorStrategy_try :: "env \<Rightarrow> int \<Rightarrow> unit io" where
  "testRagVectorStrategy_try e startTime =
     bind_io (getRecentCacheEntry e
                (Some \<lparr>opt_area = Some (TEST_AREA (config e)),
                       opt_region = Some (TEST_REGION (config e)),
                       opt_country = None,
                       opt_timeline = None,
                       opt_buttonClickCount = None\<rparr>))
       (\<lambda>cacheEntry.
     bind_io (testRagVector e
                \<lparr>query = str_or (map_option prompt cacheEntry) ''pizza deals today'',
                 area = Some (str_or (map_option entry_area cacheEntry) (TEST_AREA (config e))),
                 region = Some (str_or (Option.bind cacheEntry entry_region) (TEST_REGION (config e))),
                 country = Some (str_or (Option.bind cacheEntry entry_country) (TEST_COUNTRY (config e))),
                 timeline = Some (str_or (Option.bind cacheEntry entry_timeline) (TEST_TIMELINE (config e))),
                 category = None,
                 enableFallbacks = Some False,
                 maxFallbacks = None,
                 deviceId = None,
                 buttonClickCount = or_else (Option.bind cacheEntry button_click_count) None\<rparr>)
       (\<lambda>response.
     bind_io date_now (\<lambda>finished.
     push_result
       \<lparr>testName = ''RAG Vector Strategy'',
        success = resp_success response,
        duration = finished - startTime,
        error =
          or_else (resp_error response)
            (if length (resp_data response) = 0 then Some ''No data returned'' else None),
        details =
          Some (RagVectorDetails (length (resp_data response)) (resp_timing response)
                  (resp_source response))\<rparr>)))"

definition testRagVectorStrategy :: "env \<Rightarrow> unit io" where
  "testRagVectorStrategy e =
     bind_io date_now (\<lambda>startTime.
     try_catch (testRagVectorStrategy_try e startTime)
       (\<lambda>err.
          bind_io date_now (\<lambda>finished.
          push_result
            \<lparr>testName = ''RAG Vector Strategy'',
             success = False,
             duration = finished - startTime,
             error = caught_message err,
             details = None\<rparr>)))"

text \<open>
  The strategy sweep calls the facade method named by each entry:
  \<^verbatim>\<open>(pulseAPIService as any)[strategy.method](request)\<close>. The dispatch covers the six
  methods that take a request; any other name makes the call raise a \<^verbatim>\<open>TypeError\<close>.
\<close>

definition not_a_function :: thrown where
  "not_a_function =
     \<lparr>instanceofError = True, isAxiosError = False,
      message = Some ''pulseAPIService[strategy.method] is not a function'',
      stack = Some ''TypeError'', response = None\<rparr>"

definition call_method :: "env \<Rightarrow> string \<Rightarrow> SearchRequest \<Rightarrow> SearchResponse io" where
  "call_method e method request =
     (if method = ''testQueryCache'' then testQueryCache e request
      else if method = ''testRagCache'' then testRagCache e request
      else if method = ''testRagHybrid'' then testRagHybrid e request
      else if method = ''testWebSearchLLM'' then testWebSearchLLM e request
      else if method = ''testRagVector'' then testRagVector e request
      else if method = ''testCombined'' then testCombined e request
      else throw_io not_a_function)"

definition strategies :: "(string \<times> string) list" where
  "strategies =
     [(''Query Cache'', ''testQueryCache''),
      (''RAG Cache'', ''testRagCache''),
      (''RAG Hybrid'', ''testRagHybrid''),
      (''Web Search LLM'', ''testWebSearchLLM'')]"

definition sweep_request :: "env \<Rightarrow> SearchRequest" where
  "sweep_request e =
     \<lparr>query = ''restaurants near me'',
      area = Some (TEST_AREA (config e)),
      region = Some (TEST_REGION (config e)),
      country = None, timeline = None, category = None,
      enableFallbacks = Some False,
      maxFallbacks = None, deviceId = None, buttonClickCount = None\<rparr>"

definition testAllStrategies_try :: "env \<Rightarrow> string \<times> string \<Rightarrow> int \<Rightarrow> unit io" where
  "testAllStrategies_try e strategy startTime =
     bind_io (call_method e (snd strategy) (sweep_request e)) (\<lambda>response.
     bind_io date_now (\<lambda>finished.
     push_result
       \<lparr>testName = fst strategy @ '' Strategy'',
        success = resp_success response,
        duration = finished - startTime,
        error = resp_error response,
        details = Some (StrategyDetails (length (resp_data response)) (resp_timing response))\<rparr>))"

definition testAllStrategies_step :: "env \<Rightarrow> string \<times> string \<Rightarrow> unit io" where
  "testAllStrategies_step e strategy =
     bind_io date_now (\<lambda>startTime.
     try_catch (testAllStrategies_try e strategy startTime)
       (\<lambda>err.
          bind_io date_now (\<lambda>finished.
          push_result
            \<lparr>testName = fst strategy @ '' Strategy'',
             success = False,
             duration = finished - startTime,
             error = caught_message err,
             details = None\<rparr>)))"

definition testAllStrategies :: "env \<Rightarrow> unit io" where
  "testAllStrategies e = for_each strategies (testAllStrategies_step e)"

definition performanceTests :: "(string \<times> int) list" where
  "performanceTests = [(''query_cache'', 500), (''rag_cache'', 1000), (''rag_vector'', 3000)]"

definition performance_request :: "env \<Rightarrow> SearchRequest" where
  "performance_request e =
     \<lparr>query = ''test performance'',
      area = Some (TEST_AREA (config e)),
      region = None, country = None, timeline = None, category = None,
      enableFallbacks = Some False,
      maxFallbacks = None, deviceId = None, buttonClickCount = None\<rparr>"

definition testPerformance_try :: "env \<Rightarrow> string \<times> int \<Rightarrow> int \<Rightarrow> unit io" where
  "testPerformance_try e test startTime =
     bind_io (searchWithStrategy e (fst test) (performance_request e)) (\<lambda>response.
     bind_io date_now (\<lambda>finished.
       let duration = finished - startTime;
           withinExpected = (duration \<le> snd test)
       in push_result
            \<lparr>testName = fst test @ '' Performance'',
             success = (resp_success response \<and> withinExpected),
             duration = duration,
             error =
               (if withinExpected then None
                else Some (''Exceeded expected time: '' @ show_int duration @ ''ms > '' @
                           show_int (snd test) @ ''ms'')),
             details = Some (PerformanceDetails (snd test) duration withinExpected)\<rparr>))"

definition testPerformance_step :: "env \<Rightarrow> string \<times> int \<Rightarrow> unit io" where
  "testPerformance_step e test =
     bind_io date_now (\<lambda>startTime.
     try_catch (testPerformance_try e test startTime)
       (\<lambda>err.
          bind_io date_now (\<lambda>finished.
          push_result
            \<lparr>testName = fst test @ '' Performance'',
             success = False,
             duration = finished - startTime,
             error = caught_message err,
             details = None\<rparr>)))"

definition testPerformance :: "env \<Rightarrow> unit io" where
  "testPerformance e = for_each performanceTests (testPerformance_step e)"

section \<open>Report aggregator (generateReport)\<close>

definition generateReport :: "state \<Rightarrow> report" where
  "generateReport s =
     (let totalTests = length (this_results s);
          passedTests = length (filter success (this_results s));
          failedTests = totalTests - passedTests;
          hasFailures = (failedTests > 0);
          totalDuration = foldl (\<lambda>sum r. sum + duration r) 0 (this_results s)
      in \<lparr>timestamp = clock s,
          totalTests = totalTests,
          passedTests = passedTests,
          failedTests = failedTests,
          hasFailures = hasFailures,
          successRate = toFixed2 (js_times (js_divide passedTests totalTests) 100) @ ''%'',
          totalDuration = show_int totalDuration @ ''ms'',
          results = this_results s,
          failures = filter (\<lambda>r. \<not> success r) (this_results s)\<rparr>)"

section \<open>Alert dispatcher (services/notifications.ts)\<close>

definition JSON_stringify :: "js_value \<Rightarrow> json_text option" where
  "JSON_stringify v = (case v of Undefined \<Rightarrow> None | _ \<Rightarrow> Some (Json v))"

definition slack_fields :: "(string \<times> js_value) list \<Rightarrow> (string \<times> json_text option) list" where
  "slack_fields entries = map (\<lambda>(key, v). (key, JSON_stringify v)) entries"

text \<open>
  The Discord embed takes \<^verbatim>\<open>JSON.stringify(value).substring(0, 1024)\<close>: on an undefined
  value the method call raises a \<^verbatim>\<open>TypeError\<close>, inside the \<^verbatim>\<open>try\<close> block of the sender.
\<close>

definition substring_of_undefined :: thrown where
  "substring_of_undefined =
     \<lparr>instanceofError = True, isAxiosError = False,
      message = Some ''Cannot read properties of undefined'',
      stack = Some ''TypeError'', response = None\<rparr>"

fun discord_fields :: "(string \<times> js_value) list \<Rightarrow> thrown + (string \<times> json_text) list" where
  "discord_fields [] = Inr []"
| "discord_fields ((key, v) # rest) =
     (case JSON_stringify v of
        None \<Rightarrow> Inl substring_of_undefined
      | Some text \<Rightarrow>
          (case discord_fields rest of
             Inl err \<Rightarrow> Inl err
           | Inr flds \<Rightarrow> Inr ((key, Substring1024 text) # flds)))"

definition sendSlackNotification :: "env \<Rightarrow> string \<Rightarrow> (string \<times> js_value) list option \<Rightarrow> unit io" where
  "sendSlackNotification e text dets =
     (if \<not> ENABLE_SLACK_NOTIFICATIONS (config e) \<or> \<not> truthy (SLACK_WEBHOOK_URL (config e))
      then return_io ()
      else
        try_catch
          (case SLACK_WEBHOOK_URL (config e) of
             None \<Rightarrow> return_io ()
           | Some url \<Rightarrow> axios_post e url (SlackPayload text (map_option slack_fields dets)))
          (\<lambda>err. return_io ()))"

definition sendDiscordNotification :: "env \<Rightarrow> string \<Rightarrow> (string \<times> js_value) list option \<Rightarrow> unit io" where
  "sendDiscordNotification e text dets =
     (if \<not> ENABLE_DISCORD_NOTIFICATIONS (config e) \<or> \<not> truthy (DISCORD_WEBHOOK_URL (config e))
      then return_io ()
      else
        try_catch
          (case DISCORD_WEBHOOK_URL (config e) of
             None \<Rightarrow> return_io ()
           | Some url \<Rightarrow>
               (case dets of
                  None \<Rightarrow> axios_post e url (DiscordPayload text None)
                | Some entries \<Rightarrow>
                    (case discord_fields entries of
                       Inl err \<Rightarrow> throw_io err
                     | Inr flds \<Rightarrow> axios_post e url (DiscordPayload text (Some flds)))))
          (\<lambda>err. return_io ()))"

text \<open>
  \<^verbatim>\<open>Promise.all\<close> of two operations: both are started, the first before the second, at
  the same instant, and the result is ready when the later one is. It rejects when one
  of them rejects.
\<close>

definition promise_all2 :: "unit io \<Rightarrow> unit io \<Rightarrow> unit io" where
  "promise_all2 a b s =
     (case a s of
        (ra, sa) \<Rightarrow>
          (case b (sa\<lparr>clock := clock s\<rparr>) of
             (rb, sb) \<Rightarrow>
               ((case ra of Inl err \<Rightarrow> Inl err | Inr _ \<Rightarrow> rb),
                sb\<lparr>clock := max (clock sa) (clock sb)\<rparr>)))"

definition newline :: string where
  "newline = [CHR 0x0A]"

text \<open>The two emoji that open the messages, as their UTF-8 bytes.\<close>

definition siren :: string where
  "siren = [CHR 0xF0, CHR 0x9F, CHR 0x9A, CHR 0xA8]"

definition fire :: string where
  "fire = [CHR 0xF0, CHR 0x9F, CHR 0x94, CHR 0xA5]"

definition sendTestFailureAlert :: "env \<Rightarrow> report \<Rightarrow> unit io" where
  "sendTestFailureAlert e rep =
     (let text =
            siren @ '' Pulse Smoke Tests Failed!'' @ newline @
            ''Failed: '' @ show_nat (failedTests rep) @ ''/'' @ show_nat (totalTests rep) @
            '' tests'' @ newline @
            ''Success Rate: '' @ successRate rep @ newline @
            ''Duration: '' @ totalDuration rep;
          dets =
            [(''timestamp'', Instant (timestamp rep)),
             (''failures'',
              FailureList
                (map (\<lambda>f. (testName f, error f, show_int (duration f) @ ''ms'')) (failures rep)))]
      in promise_all2 (sendSlackNotification e text (Some dets))
                      (sendDiscordNotification e text (Some dets)))"

definition sendCriticalAlert :: "env \<Rightarrow> string \<Rightarrow> thrown \<Rightarrow> unit io" where
  "sendCriticalAlert e text err =
     bind_io date_now (\<lambda>now.
       let alertMessage = fire @ '' CRITICAL: '' @ text;
           dets =
             [(''error'', Str (str_or (message err) ''Unknown error'')),
              (''stack'', (case stack err of None \<Rightarrow> Undefined | Some trace \<Rightarrow> Str trace)),
              (''timestamp'', Instant now)]
       in promise_all2 (sendSlackNotification e alertMessage (Some dets))
                       (sendDiscordNotification e alertMessage (Some dets)))"

section \<open>Test orchestrator (runAllTests) and the entry block\<close>

definition log_report :: "report \<Rightarrow> unit io" where
  "log_report rep s = (Inr (), s\<lparr>logged := logged s @ [rep]\<rparr>)"

definition runAllTests_try :: "env \<Rightarrow> unit io" where
  "runAllTests_try e =
     bind_io (testAPIHealth e) (\<lambda>_.
     bind_io (testSupabaseConnection e) (\<lambda>_.
     bind_io (testQueryCacheStrategy e) (\<lambda>_.
     bind_io (testRagVectorStrategy e) (\<lambda>_.
     bind_io (testAllStrategies e) (\<lambda>_.
     bind_io (testPerformance e) (\<lambda>_.
     bind_io (\<lambda>s. (Inr (generateReport s), s)) (\<lambda>rep.
     bind_io (log_report rep) (\<lambda>_.
       if hasFailures rep then sendTestFailureAlert e rep else return_io ()))))))))"

definition runAllTests_catch :: "env \<Rightarrow> thrown \<Rightarrow> unit io" where
  "runAllTests_catch e err = sendCriticalAlert e ''Smoke tests failed to complete'' err"

definition runAllTests :: "env \<Rightarrow> unit io" where
  "runAllTests e = try_catch (runAllTests_try e) (runAllTests_catch e)"








text \<open>
  The entry block: \<^verbatim>\<open>runAllTests().then(() => process.exit(0)).catch(() => process.exit(1))\<close>.
  An exception raised while the modules load is caught by nobody: the runtime ends the
  process with exit code 1 before a run starts.
\<close>

definition initial_state :: "int \<Rightarrow> state" where
  "initial_state t0 = \<lparr>this_results = [], clock = t0, calls = [], logged = []\<rparr>"



text \<open>The names of the results of one run, in the order the checks are made.\<close>

definition check_names :: "string list" where
  "check_names =
     [''API Health Check'', ''Supabase Connection'', ''Query Cache Strategy'',
      ''RAG Vector Strategy'',
      ''Query Cache Strategy'', ''RAG Cache Strategy'', ''RAG Hybrid Strategy'',
      ''Web Search LLM Strategy'',
      ''query_cache Performance'', ''rag_cache Performance'', ''rag_vector Performance'']"

text \<open>
  \<open>appends p names\<close>: from every state, \<open>p\<close> resolves and has pushed results with exactly
  these names, having written no report.
\<close>

definition appends :: "unit io \<Rightarrow> string list \<Rightarrow> bool" where
  "appends p names =
     (\<forall>s. \<exists>s'. p s = (Inr (), s') \<and>
        map testName (this_results s') = map testName (this_results s) @ names \<and>
        logged s' = logged s)"

text \<open>The state after a failed result for \<open>name\<close> was pushed at the end of a \<^verbatim>\<open>catch\<close> block.\<close>

definition failed_push :: "string \<Rightarrow> int \<Rightarrow> thrown \<Rightarrow> state \<Rightarrow> state" where
  "failed_push name startTime err s =
     s\<lparr>this_results := this_results s @
          [\<lparr>testName = name, success = False, duration = clock s - startTime,
            error = caught_message err, details = None\<rparr>]\<rparr>"


section \<open>Example inputs\<close>

definition boom :: thrown where
  "boom =
     \<lparr>instanceofError = True, isAxiosError = False, message = Some ''boom'',
      stack = Some ''Error: boom'', response = None\<rparr>"


text \<open>An axios error of a reply with status 503 whose body carries an error text.\<close>

definition service_unavailable :: thrown where
  "service_unavailable =
     \<lparr>instanceofError = True, isAxiosError = True,
      message = Some ''Request failed with status code 503'',
      stack = Some ''AxiosError'', response = Some (503, Some ''upstream busy'')\<rparr>"

definition example_config :: config where
  "example_config =
     \<lparr>SUPABASE_URL = ''https://db.example'',
      SUPABASE_ANON_KEY = ''anon'',
      SUPABASE_SERVICE_ROLE_KEY = ''service'',
      PULSE_API_BASE_URL = ''https://api.example'',
      TEST_AREA = ''tampa-bay'',
      TEST_REGION = ''FL'',
      TEST_COUNTRY = ''US'',
      TEST_TIMELINE = ''today'',
      SLACK_WEBHOOK_URL = Some ''https://hooks.example/slack'',
      DISCORD_WEBHOOK_URL = Some ''https://hooks.example/discord'',
      ENABLE_SLACK_NOTIFICATIONS = False,
      ENABLE_DISCORD_NOTIFICATIONS = False,
      ENABLE_AUTO_HEALING = False,
      LOG_LEVEL = ''info''\<rparr>"


definition ok_body :: "item list \<Rightarrow> SearchResponse" where
  "ok_body items =
     \<lparr>resp_success = True, resp_data = items, resp_source = ''rag_vector'',
      resp_strategy = ''rag_vector'', originalStrategy = None, fallbackUsed = None,
      fallbackChain = None,
      resp_timing = Some \<lparr>primary_ms = None, fallback_ms = None, total_ms = 42\<rparr>,
      resp_meta = None, resp_timestamp = 0, resp_error = None\<rparr>"

text \<open>A world in which every collaborator fails: the store answers with an error, the
  API client raises.\<close>

definition world_down :: env where
  "world_down =
     \<lparr>config = example_config,
      http_get = (\<lambda>n url timeout. (0, Inl boom)),
      http_post = (\<lambda>n url request. (0, Inl boom)),
      db_select = (\<lambda>n q. (0, \<lparr>db_data = None, db_error = Some boom\<rparr>)),
      webhook_post = (\<lambda>n url payload. (0, Inr ()))\<rparr>"

text \<open>A world whose API is unreachable: every request ends in \<open>err\<close> after 7 ms.\<close>

definition world_rejecting :: "thrown \<Rightarrow> env" where
  "world_rejecting err =
     \<lparr>config = example_config,
      http_get = (\<lambda>n url timeout. (7, Inl err)),
      http_post = (\<lambda>n url request. (7, Inl err)),
      db_select = (\<lambda>n q. (0, \<lparr>db_data = None, db_error = None\<rparr>)),
      webhook_post = (\<lambda>n url payload. (0, Inr ()))\<rparr>"

text \<open>A world whose API answers every search after \<open>ms\<close> milliseconds with status 200 and
  the given items, and whose store holds the given rows.\<close>

definition world_answering :: "int \<Rightarrow> item list \<Rightarrow> QueryCacheEntry list \<Rightarrow> env" where
  "world_answering ms items rows =
     \<lparr>config = example_config,
      http_get = (\<lambda>n url timeout. (1, Inr 200)),
      http_post = (\<lambda>n url request. (ms, Inr (200, ok_body items))),
      db_select = (\<lambda>n q. (3, \<lparr>db_data = Some rows, db_error = None\<rparr>)),
      webhook_post = (\<lambda>n url payload. (0, Inr ()))\<rparr>"

text \<open>A fixture that expired at instant 50, and one without recorded results.\<close>

definition expired_entry :: QueryCacheEntry where
  "expired_entry =
     \<lparr>entry_id = ''e1'', prompt = ''pizza'', entry_area = ''tampa-bay'', entry_region = None,
      entry_country = None, entry_timeline = None, button_click_count = None,
      entry_data = Some [''r1''], created_at = 0, expire_at = 50\<rparr>"

definition hollow_entry :: QueryCacheEntry where
  "hollow_entry =
     \<lparr>entry_id = ''e2'', prompt = ''tacos'', entry_area = ''tampa-bay'', entry_region = None,
      entry_country = None, entry_timeline = None, button_click_count = None,
      entry_data = Some [], created_at = 0, expire_at = 1000000\<rparr>"



section \<open>Properties\<close>

subsection \<open>Auxiliary facts\<close>

lemmas io_defs = try_catch_def bind_io_def return_io_def throw_io_def date_now_def push_result_def

lemma appends_bind:
  assumes "appends p ns" and "appends q ms"
  shows "appends (bind_io p (\<lambda>_. q)) (ns @ ms)"
  unfolding appends_def
proof
  fix s
  from assms(1) obtain s1 where p: "p s = (Inr (), s1)"
    "map testName (this_results s1) = map testName (this_results s) @ ns" "logged s1 = logged s"
    unfolding appends_def by blast
  from assms(2) obtain s2 where q: "q s1 = (Inr (), s2)"
    "map testName (this_results s2) = map testName (this_results s1) @ ms" "logged s2 = logged s1"
    unfolding appends_def by blast
  show "\<exists>s'. bind_io p (\<lambda>_. q) s = (Inr (), s') \<and>
        map testName (this_results s') = map testName (this_results s) @ ns @ ms \<and>
        logged s' = logged s"
    using p q by (simp add: bind_io_def)
qed

lemma appends_return: "appends (return_io ()) []"
  by (simp add: appends_def return_io_def)

lemma appends_for_each:
  assumes "\<And>x. x \<in> set xs \<Longrightarrow> appends (f x) [g x]"
  shows "appends (for_each xs f) (map g xs)"
  using assms
proof (induction xs)
  case Nil
  then show ?case by (simp add: appends_return)
next
  case (Cons x xs)
  have "appends (bind_io (f x) (\<lambda>_. for_each xs f)) ([g x] @ map g xs)"
    by (rule appends_bind) (simp_all add: Cons)
  then show ?case by simp
qed

lemma appends_testAPIHealth: "appends (testAPIHealth e) [''API Health Check'']"
  by (auto simp: appends_def testAPIHealth_def testAPIHealth_try_def healthCheck_def client_get_def io_defs
      split: prod.splits sum.splits)

lemma appends_testSupabaseConnection: "appends (testSupabaseConnection e) [''Supabase Connection'']"
  by (auto simp: appends_def testSupabaseConnection_def testSupabaseConnection_try_def
      getRecentCacheEntry_def supabase_select_def io_defs
      split: prod.splits sum.splits option.splits list.splits)

lemma searchWithStrategy_frameD:
  "searchWithStrategy e strategy request s = (r, s') \<Longrightarrow>
     this_results s' = this_results s \<and> logged s' = logged s"
  by (auto simp: searchWithStrategy_def client_post_def io_defs split: prod.splits sum.splits if_splits)

lemma getRecentCacheEntry_frameD:
  "getRecentCacheEntry e options s = (r, s') \<Longrightarrow>
     this_results s' = this_results s \<and> logged s' = logged s"
  by (auto simp: getRecentCacheEntry_def supabase_select_def io_defs
      split: prod.splits sum.splits option.splits list.splits)

lemma getCacheEntriesByPrompt_frameD:
  "getCacheEntriesByPrompt e pattern limit s = (r, s') \<Longrightarrow>
     this_results s' = this_results s \<and> logged s' = logged s"
  by (auto simp: getCacheEntriesByPrompt_def supabase_select_def io_defs
      split: prod.splits sum.splits option.splits list.splits)

lemma appends_testQueryCacheStrategy: "appends (testQueryCacheStrategy e) [''Query Cache Strategy'']"
  by (auto simp: appends_def testQueryCacheStrategy_def testQueryCacheStrategy_try_def
      testQueryCache_def io_defs
      split: prod.splits sum.splits option.splits
      dest!: searchWithStrategy_frameD getCacheEntriesByPrompt_frameD)

lemma appends_testRagVectorStrategy: "appends (testRagVectorStrategy e) [''RAG Vector Strategy'']"
  by (auto simp: appends_def testRagVectorStrategy_def testRagVectorStrategy_try_def
      testRagVector_def io_defs
      split: prod.splits sum.splits option.splits
      dest!: searchWithStrategy_frameD getRecentCacheEntry_frameD)

lemma call_method_frameD:
  "call_method e method request s = (r, s') \<Longrightarrow>
     this_results s' = this_results s \<and> logged s' = logged s"
  by (auto simp: call_method_def testQueryCache_def testRagCache_def testRagHybrid_def
      testWebSearchLLM_def testRagVector_def testCombined_def throw_io_def
      split: if_splits dest!: searchWithStrategy_frameD)

lemma appends_testAllStrategies_step:
  "appends (testAllStrategies_step e strategy) [fst strategy @ '' Strategy'']"
  by (auto simp: appends_def testAllStrategies_step_def testAllStrategies_try_def io_defs
      split: prod.splits sum.splits option.splits
      dest!: call_method_frameD)

lemma appends_testPerformance_step:
  "appends (testPerformance_step e test) [fst test @ '' Performance'']"
  by (auto simp: appends_def testPerformance_step_def testPerformance_try_def io_defs Let_def
      split: prod.splits sum.splits option.splits
      dest!: searchWithStrategy_frameD)

lemma appends_testAllStrategies:
  "appends (testAllStrategies e)
     [''Query Cache Strategy'', ''RAG Cache Strategy'', ''RAG Hybrid Strategy'', ''Web Search LLM Strategy'']"
  using appends_for_each[of strategies "testAllStrategies_step e" "\<lambda>x. fst x @ '' Strategy''"]
  by (simp add: testAllStrategies_def appends_testAllStrategies_step strategies_def)

lemma appends_testPerformance:
  "appends (testPerformance e)
     [''query_cache Performance'', ''rag_cache Performance'', ''rag_vector Performance'']"
  using appends_for_each[of performanceTests "testPerformance_step e" "\<lambda>x. fst x @ '' Performance''"]
  by (simp add: testPerformance_def appends_testPerformance_step performanceTests_def)

lemma appends_probes:
  "appends
     (bind_io (testAPIHealth e) (\<lambda>_.
      bind_io (testSupabaseConnection e) (\<lambda>_.
      bind_io (testQueryCacheStrategy e) (\<lambda>_.
      bind_io (testRagVectorStrategy e) (\<lambda>_.
      bind_io (testAllStrategies e) (\<lambda>_. testPerformance e))))))
     check_names"
proof -
  note step = appends_bind
  have "appends
     (bind_io (testAPIHealth e) (\<lambda>_.
      bind_io (testSupabaseConnection e) (\<lambda>_.
      bind_io (testQueryCacheStrategy e) (\<lambda>_.
      bind_io (testRagVectorStrategy e) (\<lambda>_.
      bind_io (testAllStrategies e) (\<lambda>_. testPerformance e))))))
     ([''API Health Check''] @ [''Supabase Connection''] @ [''Query Cache Strategy''] @
      [''RAG Vector Strategy''] @
      [''Query Cache Strategy'', ''RAG Cache Strategy'', ''RAG Hybrid Strategy'', ''Web Search LLM Strategy''] @
      [''query_cache Performance'', ''rag_cache Performance'', ''rag_vector Performance''])"
    by (intro step appends_testAPIHealth appends_testSupabaseConnection
        appends_testQueryCacheStrategy appends_testRagVectorStrategy
        appends_testAllStrategies appends_testPerformance)
  then show ?thesis by (simp add: check_names_def)
qed

lemma axios_post_frameD:
  "axios_post e url payload s = (r, s') \<Longrightarrow>
     this_results s' = this_results s \<and> logged s' = logged s"
  by (auto simp: axios_post_def split: prod.splits)

lemma sendSlackNotification_resolves:
  "\<exists>s'. sendSlackNotification e text dets s = (Inr (), s') \<and>
     this_results s' = this_results s \<and> logged s' = logged s"
  by (auto simp: sendSlackNotification_def io_defs
      split: prod.splits sum.splits option.splits dest!: axios_post_frameD)

lemma sendDiscordNotification_resolves:
  "\<exists>s'. sendDiscordNotification e text dets s = (Inr (), s') \<and>
     this_results s' = this_results s \<and> logged s' = logged s"
  by (auto simp: sendDiscordNotification_def io_defs
      split: prod.splits sum.splits option.splits dest!: axios_post_frameD)

lemma promise_all2_resolves:
  assumes "\<And>s. \<exists>s'. a s = (Inr (), s') \<and> this_results s' = this_results s \<and> logged s' = logged s"
    and "\<And>s. \<exists>s'. b s = (Inr (), s') \<and> this_results s' = this_results s \<and> logged s' = logged s"
  shows "\<exists>s'. promise_all2 a b s = (Inr (), s') \<and>
     this_results s' = this_results s \<and> logged s' = logged s"
proof -
  from assms(1) obtain sa where a: "a s = (Inr (), sa)" "this_results sa = this_results s"
    "logged sa = logged s" by blast
  from assms(2)[of "sa\<lparr>clock := clock s\<rparr>"] obtain sb where
    b: "b (sa\<lparr>clock := clock s\<rparr>) = (Inr (), sb)" "this_results sb = this_results sa"
    "logged sb = logged sa" by auto
  show ?thesis using a b by (simp add: promise_all2_def)
qed

lemma sendTestFailureAlert_resolves:
  "\<exists>s'. sendTestFailureAlert e rep s = (Inr (), s') \<and>
     this_results s' = this_results s \<and> logged s' = logged s"
  unfolding sendTestFailureAlert_def Let_def
  by (rule promise_all2_resolves) (rule sendSlackNotification_resolves sendDiscordNotification_resolves)+


lemma runAllTests_try_completes:
  "\<exists>s' rep. runAllTests_try e s = (Inr (), s') \<and>
     map testName (this_results s') = map testName (this_results s) @ check_names \<and>
     logged s' = logged s @ [rep] \<and> results rep = this_results s' \<and>
     totalTests rep = length (this_results s')"
proof -
  let ?probes = "bind_io (testAPIHealth e) (\<lambda>_.
      bind_io (testSupabaseConnection e) (\<lambda>_.
      bind_io (testQueryCacheStrategy e) (\<lambda>_.
      bind_io (testRagVectorStrategy e) (\<lambda>_.
      bind_io (testAllStrategies e) (\<lambda>_. testPerformance e)))))"
  let ?rest = "bind_io (\<lambda>s. (Inr (generateReport s), s)) (\<lambda>rep.
     bind_io (log_report rep) (\<lambda>_.
       if hasFailures rep then sendTestFailureAlert e rep else return_io ()))"
  have split: "runAllTests_try e s = bind_io ?probes (\<lambda>_. ?rest) s"
    by (simp add: runAllTests_try_def bind_io_def split: prod.splits sum.splits)
  from appends_probes[of e] obtain s1 where
    s1: "?probes s = (Inr (), s1)"
    "map testName (this_results s1) = map testName (this_results s) @ check_names"
    "logged s1 = logged s"
    unfolding appends_def by blast
  let ?rep = "generateReport s1"
  let ?s2 = "s1\<lparr>logged := logged s1 @ [?rep]\<rparr>"
  have "\<exists>s3. (if hasFailures ?rep then sendTestFailureAlert e ?rep else return_io ()) ?s2 = (Inr (), s3) \<and>
    this_results s3 = this_results ?s2 \<and> logged s3 = logged ?s2"
    using sendTestFailureAlert_resolves[of e ?rep ?s2] by (simp add: return_io_def)
  then obtain s3 where s3: "(if hasFailures ?rep then sendTestFailureAlert e ?rep else return_io ()) ?s2 = (Inr (), s3)"
    "this_results s3 = this_results ?s2" "logged s3 = logged ?s2"
    by blast
  have "runAllTests_try e s = (Inr (), s3)"
    using s1(1) s3(1) by (simp add: split bind_io_def log_report_def)
  moreover have "results ?rep = this_results s3" "totalTests ?rep = length (this_results s3)"
    using s3(2) by (simp_all add: generateReport_def Let_def)
  ultimately show ?thesis using s1 s3 by auto
qed

lemma runAllTests_completes:
  "\<exists>s' rep. runAllTests e s = (Inr (), s') \<and>
     map testName (this_results s') = map testName (this_results s) @ check_names \<and>
     logged s' = logged s @ [rep] \<and> results rep = this_results s' \<and>
     totalTests rep = length (this_results s')"
  using runAllTests_try_completes[of e s] by (auto simp: runAllTests_def try_catch_def)


lemma guarded_failure:
  assumes "body s = (Inl err, s1)"
  shows "try_catch body
           (\<lambda>err. bind_io date_now (\<lambda>finished.
              push_result \<lparr>testName = name, success = False, duration = finished - startTime,
                           error = caught_message err, details = None\<rparr>)) s =
         (Inr (), failed_push name startTime err s1)"
  using assms by (simp add: io_defs failed_push_def)





subsection \<open>Test orchestrator\<close>

text \<open>
  C1. An exception raised inside a probe never ends the run. From every state and in
  every world, \<open>runAllTests\<close> resolves, one result per check has been pushed in the fixed
  order (eleven results, \<open>check_names\<close>), and the report written to the log counts them all:
  \<open>totalTests\<close> is the number of checks. The \<^verbatim>\<open>try\<close> block of the health probe cannot raise
  (\<open>healthCheck\<close> catches every error itself). Whenever the \<^verbatim>\<open>try\<close> block of one of the other
  probes, or of one iteration of the strategy sweep or of the performance probe, raises
  \<open>err\<close>, that probe resolves and has pushed exactly one failed result named for it, with the
  caught message, on top of the state \<open>sx\<close> the exception left; the next check then runs
  from there.
\<close>

theorem probe_exceptions_never_end_the_run:
  "(\<exists>s' rep. runAllTests e s = (Inr (), s') \<and>
      map testName (this_results s') = map testName (this_results s) @ check_names \<and>
      logged s' = logged s @ [rep] \<and> results rep = this_results s' \<and>
      totalTests rep = length (this_results s) + 11) \<and>
   (\<exists>s''. testAPIHealth_try e (clock s) s = (Inr (), s'')) \<and>
   (testSupabaseConnection_try e (clock s) s = (Inl err, sx) \<longrightarrow>
      testSupabaseConnection e s = (Inr (), failed_push ''Supabase Connection'' (clock s) err sx)) \<and>
   (testQueryCacheStrategy_try e (clock s) s = (Inl err, sx) \<longrightarrow>
      testQueryCacheStrategy e s = (Inr (), failed_push ''Query Cache Strategy'' (clock s) err sx)) \<and>
   (testRagVectorStrategy_try e (clock s) s = (Inl err, sx) \<longrightarrow>
      testRagVectorStrategy e s = (Inr (), failed_push ''RAG Vector Strategy'' (clock s) err sx)) \<and>
   (testAllStrategies_try e strategy (clock s) s = (Inl err, sx) \<longrightarrow>
      testAllStrategies_step e strategy s =
        (Inr (), failed_push (fst strategy @ '' Strategy'') (clock s) err sx)) \<and>
   (testPerformance_try e test (clock s) s = (Inl err, sx) \<longrightarrow>
      testPerformance_step e test s =
        (Inr (), failed_push (fst test @ '' Performance'') (clock s) err sx))"
proof -
  obtain s' rep where run: "runAllTests e s = (Inr (), s')"
    "map testName (this_results s') = map testName (this_results s) @ check_names"
    "logged s' = logged s @ [rep]" "results rep = this_results s'"
    "totalTests rep = length (this_results s')"
    using runAllTests_completes[of e s] by blast
  have "length (map testName (this_results s')) = length (this_results s) + 11"
    unfolding run(2) by (simp add: check_names_def)
  then have total: "totalTests rep = length (this_results s) + 11"
    using run(5) by simp
  have first: "\<exists>s' rep. runAllTests e s = (Inr (), s') \<and>
      map testName (this_results s') = map testName (this_results s) @ check_names \<and>
      logged s' = logged s @ [rep] \<and> results rep = this_results s' \<and>
      totalTests rep = length (this_results s) + 11"
    using run total by blast
  have health: "\<exists>s''. testAPIHealth_try e (clock s) s = (Inr (), s'')"
    by (auto simp: testAPIHealth_try_def healthCheck_def client_get_def io_defs
        split: prod.splits sum.splits)
  have a: "testSupabaseConnection_try e (clock s) s = (Inl err, sx) \<longrightarrow>
      testSupabaseConnection e s = (Inr (), failed_push ''Supabase Connection'' (clock s) err sx)"
    by (simp add: testSupabaseConnection_def bind_io_def date_now_def guarded_failure)
  have b: "testQueryCacheStrategy_try e (clock s) s = (Inl err, sx) \<longrightarrow>
      testQueryCacheStrategy e s = (Inr (), failed_push ''Query Cache Strategy'' (clock s) err sx)"
    by (simp add: testQueryCacheStrategy_def bind_io_def date_now_def guarded_failure)
  have c: "testRagVectorStrategy_try e (clock s) s = (Inl err, sx) \<longrightarrow>
      testRagVectorStrategy e s = (Inr (), failed_push ''RAG Vector Strategy'' (clock s) err sx)"
    by (simp add: testRagVectorStrategy_def bind_io_def date_now_def guarded_failure)
  have d: "testAllStrategies_try e strategy (clock s) s = (Inl err, sx) \<longrightarrow>
      testAllStrategies_step e strategy s =
        (Inr (), failed_push (fst strategy @ '' Strategy'') (clock s) err sx)"
    by (simp add: testAllStrategies_step_def bind_io_def date_now_def guarded_failure)
  have f: "testPerformance_try e test (clock s) s = (Inl err, sx) \<longrightarrow>
      testPerformance_step e test s =
        (Inr (), failed_push (fst test @ '' Performance'') (clock s) err sx)"
    by (simp add: testPerformance_step_def bind_io_def date_now_def guarded_failure)
  show ?thesis using first health a b c d f by blast
qed

text \<open>
  The witness: a world in which the store answers every query with an error and the API
  client raises on every request. All eleven checks are made and reported.
\<close>

theorem probe_exceptions_never_end_the_run_witness:
  "fst (runAllTests world_down (initial_state 0)) = Inr () \<and>
   map testName (this_results (snd (runAllTests world_down (initial_state 0)))) = check_names \<and>
   map totalTests (logged (snd (runAllTests world_down (initial_state 0)))) = [11] \<and>
   testSupabaseConnection world_down (initial_state 0) =
     (Inr (),
      \<lparr>this_results =
         [\<lparr>testName = ''Supabase Connection'', success = False, duration = 0,
           error = Some ''boom'', details = None\<rparr>],
       clock = 0, calls = [DbSelect (RecentQuery 0 [] 1)], logged = []\<rparr>) \<and>
   testQueryCacheStrategy world_down (initial_state 0) =
     (Inr (),
      \<lparr>this_results =
         [\<lparr>testName = ''Query Cache Strategy'', success = False, duration = 0,
           error = Some ''boom'', details = None\<rparr>],
       clock = 0, calls = [DbSelect (ByPromptQuery 0 ''%%'' 5)], logged = []\<rparr>) \<and>
   testRagVectorStrategy world_down (initial_state 0) =
     (Inr (),
      \<lparr>this_results =
         [\<lparr>testName = ''RAG Vector Strategy'', success = False, duration = 0,
           error = Some ''boom'', details = None\<rparr>],
       clock = 0,
       calls = [DbSelect (RecentQuery 0 [(''area'', ''tampa-bay''), (''region'', ''FL'')] 1)],
       logged = []\<rparr>) \<and>
   testAllStrategies_step world_down (''RAG Hybrid'', ''testRagHybrid'') (initial_state 0) =
     (Inr (),
      \<lparr>this_results =
         [\<lparr>testName = ''RAG Hybrid Strategy'', success = False, duration = 0,
           error = Some ''boom'', details = None\<rparr>],
       clock = 0,
       calls = [HttpPost ''/api/search/rag_hybrid'' (sweep_request world_down)],
       logged = []\<rparr>) \<and>
   testPerformance_step world_down (''rag_cache'', 1000) (initial_state 0) =
     (Inr (),
      \<lparr>this_results =
         [\<lparr>testName = ''rag_cache Performance'', success = False, duration = 0,
           error = Some ''boom'', details = None\<rparr>],
       clock = 0,
       calls = [HttpPost ''/api/search/rag_cache'' (performance_request world_down)],
       logged = []\<rparr>)"
proof -
  note t = probe_exceptions_never_end_the_run[where e = world_down and s = "initial_state 0"
      and err = boom and strategy = "(''RAG Hybrid'', ''testRagHybrid'')"
      and test = "(''rag_cache'', 1000)"]
  let ?s = "\<lambda>c. \<lparr>this_results = [], clock = 0, calls = [c], logged = []\<rparr>"
  have run: "fst (runAllTests world_down (initial_state 0)) = Inr () \<and>
   map testName (this_results (snd (runAllTests world_down (initial_state 0)))) = check_names \<and>
   map totalTests (logged (snd (runAllTests world_down (initial_state 0)))) = [11]"
    using t[where sx = "initial_state 0"] by (auto simp: initial_state_def)
  have a: "testSupabaseConnection world_down (initial_state 0) =
     (Inr (), failed_push ''Supabase Connection'' 0 boom (?s (DbSelect (RecentQuery 0 [] 1))))"
    using t[where sx = "?s (DbSelect (RecentQuery 0 [] 1))"]
    by (simp add: testSupabaseConnection_try_def getRecentCacheEntry_def supabase_select_def
        recent_filters_def io_defs world_down_def initial_state_def)
  have b: "testQueryCacheStrategy world_down (initial_state 0) =
     (Inr (), failed_push ''Query Cache Strategy'' 0 boom (?s (DbSelect (ByPromptQuery 0 ''%%'' 5))))"
    using t[where sx = "?s (DbSelect (ByPromptQuery 0 ''%%'' 5))"]
    by (simp add: testQueryCacheStrategy_try_def getCacheEntriesByPrompt_def supabase_select_def
        io_defs world_down_def initial_state_def)
  have c: "testRagVectorStrategy world_down (initial_state 0) =
     (Inr (), failed_push ''RAG Vector Strategy'' 0 boom
        (?s (DbSelect (RecentQuery 0 [(''area'', ''tampa-bay''), (''region'', ''FL'')] 1))))"
    using t[where sx = "?s (DbSelect (RecentQuery 0 [(''area'', ''tampa-bay''), (''region'', ''FL'')] 1))"]
    by (simp add: testRagVectorStrategy_try_def getRecentCacheEntry_def supabase_select_def
        recent_filters_def eq_filter_def truthy_def example_config_def
        io_defs world_down_def initial_state_def)
  have d: "testAllStrategies_step world_down (''RAG Hybrid'', ''testRagHybrid'') (initial_state 0) =
     (Inr (), failed_push ''RAG Hybrid Strategy'' 0 boom
        (?s (HttpPost ''/api/search/rag_hybrid'' (sweep_request world_down))))"
    using t[where sx = "?s (HttpPost ''/api/search/rag_hybrid'' (sweep_request world_down))"]
    by (simp add: testAllStrategies_try_def call_method_def testRagHybrid_def searchWithStrategy_def
        client_post_def io_defs world_down_def initial_state_def boom_def)
  have f: "testPerformance_step world_down (''rag_cache'', 1000) (initial_state 0) =
     (Inr (), failed_push ''rag_cache Performance'' 0 boom
        (?s (HttpPost ''/api/search/rag_cache'' (performance_request world_down))))"
    using t[where sx = "?s (HttpPost ''/api/search/rag_cache'' (performance_request world_down))"]
    by (simp add: testPerformance_try_def searchWithStrategy_def
        client_post_def io_defs world_down_def initial_state_def boom_def)
  show ?thesis
    using run a b c d f
    by (simp add: failed_push_def caught_message_def boom_def)
qed




subsection \<open>Report aggregator\<close>





subsection \<open>Service client facade\<close>




text \<open>
  C10. \<open>healthCheck\<close> never raises: it issues one \<^verbatim>\<open>GET /health\<close> with a timeout of 5000 ms
  and resolves with \<open>True\<close> exactly when the client resolves with status 200. Every other
  status and every rejection (transport error, timeout, status outside 2xx) gives \<open>False\<close>.
\<close>

theorem healthCheck_true_iff_status_200:
  "\<exists>s'. healthCheck e s =
          (Inr (snd (http_get e (length (calls s)) ''/health'' 5000) = Inr 200), s') \<and>
        calls s' = calls s @ [HttpGet ''/health'' 5000]"
  by (auto simp: healthCheck_def try_catch_def bind_io_def client_get_def return_io_def
      split: prod.splits sum.splits)

theorem healthCheck_true_iff_status_200_witness:
  "fst (healthCheck (world_answering 5 [] []) (initial_state 0)) = Inr True \<and>
   fst (healthCheck (world_answering 5 [] []\<lparr>http_get := (\<lambda>n url timeout. (1, Inr 204))\<rparr>) (initial_state 0)) =
     Inr False \<and>
   fst (healthCheck (world_rejecting service_unavailable) (initial_state 0)) = Inr False"
  using healthCheck_true_iff_status_200[of "world_answering 5 [] []" "initial_state 0"]
    healthCheck_true_iff_status_200[of
      "world_answering 5 [] []\<lparr>http_get := (\<lambda>n url timeout. (1, Inr 204))\<rparr>" "initial_state 0"]
    healthCheck_true_iff_status_200[of "world_rejecting service_unavailable" "initial_state 0"]
  by (auto simp: world_answering_def world_rejecting_def initial_state_def)

subsection \<open>Probes\<close>



text \<open>
  C8. When the fixture provider answers without error and none of the rows it returns is
  a valid fixture (recorded results non-empty and \<open>expire_at\<close> later than now), the
  query-cache probe pushes one failed result whose error says that no valid cache entry
  was found, and the only call it has issued is the query on the store: the facade is not
  called.
\<close>

theorem testQueryCacheStrategy_without_fixture:
  assumes "db_select e (length (calls s)) (ByPromptQuery (clock s) ''%%'' 5) = (dt, answer)"
    and "db_error answer = None"
    and "\<forall>entry \<in> set (case db_data answer of None \<Rightarrow> [] | Some rows \<Rightarrow> rows).
           \<not> valid_entry (clock s + dt) entry"
  shows "testQueryCacheStrategy e s =
     (Inr (),
      s\<lparr>this_results := this_results s @
           [\<lparr>testName = ''Query Cache Strategy'', success = False, duration = dt,
             error = Some ''No valid cache entries found for testing'', details = None\<rparr>],
        clock := clock s + dt,
        calls := calls s @ [DbSelect (ByPromptQuery (clock s) ''%%'' 5)]\<rparr>)"
proof -
  have "find (valid_entry (clock s + dt)) (case db_data answer of None \<Rightarrow> [] | Some rows \<Rightarrow> rows) = None"
    using assms(3) by (cases "db_data answer") (auto simp: find_None_iff)
  then show ?thesis
    using assms(1,2)
    by (simp add: testQueryCacheStrategy_def testQueryCacheStrategy_try_def
        getCacheEntriesByPrompt_def supabase_select_def io_defs)
qed

theorem testQueryCacheStrategy_without_fixture_witness:
  "\<not> valid_entry 103 expired_entry \<and> \<not> valid_entry 103 hollow_entry \<and>
   testQueryCacheStrategy (world_answering 9 [''r1''] [expired_entry, hollow_entry]) (initial_state 100) =
     (Inr (),
      \<lparr>this_results =
         [\<lparr>testName = ''Query Cache Strategy'', success = False, duration = 3,
           error = Some ''No valid cache entries found for testing'', details = None\<rparr>],
       clock = 103,
       calls = [DbSelect (ByPromptQuery 100 ''%%'' 5)],
       logged = []\<rparr>)"
  using testQueryCacheStrategy_without_fixture[of "world_answering 9 [''r1''] [expired_entry, hollow_entry]"
      "initial_state 100" 3 "\<lparr>db_data = Some [expired_entry, hollow_entry], db_error = None\<rparr>"]
  by (simp add: world_answering_def initial_state_def valid_entry_def expired_entry_def hollow_entry_def)

text \<open>
  C9. The vector probe on a response with \<open>success = True\<close> and no data: the result pushed
  carries the error text \<^verbatim>\<open>No data returned\<close> but \<open>success = True\<close>, so the report counts it as
  passed: it is not among the failures and \<open>hasFailures\<close> is false.
\<close>

theorem testRagVectorStrategy_empty_data_recorded_as_passed:
  "testRagVectorStrategy (world_answering 9 [] []) (initial_state 0) =
     (Inr (),
      \<lparr>this_results =
         [\<lparr>testName = ''RAG Vector Strategy'', success = True, duration = 12,
           error = Some ''No data returned'',
           details = Some (RagVectorDetails 0
                       (Some \<lparr>primary_ms = None, fallback_ms = None, total_ms = 42\<rparr>) ''rag_vector'')\<rparr>],
       clock = 12,
       calls =
         [DbSelect (RecentQuery 0 [(''area'', ''tampa-bay''), (''region'', ''FL'')] 1),
          HttpPost ''/api/search/rag_vector''
            \<lparr>query = ''pizza deals today'', area = Some ''tampa-bay'', region = Some ''FL'',
             country = Some ''US'', timeline = Some ''today'', category = None,
             enableFallbacks = Some False, maxFallbacks = None, deviceId = None,
             buttonClickCount = None\<rparr>],
       logged = []\<rparr>) \<and>
   failures (generateReport (snd (testRagVectorStrategy (world_answering 9 [] []) (initial_state 0)))) = [] \<and>
   hasFailures (generateReport (snd (testRagVectorStrategy (world_answering 9 [] []) (initial_state 0)))) = False"
proof -
  have run: "testRagVectorStrategy (world_answering 9 [] []) (initial_state 0) =
     (Inr (),
      \<lparr>this_results =
         [\<lparr>testName = ''RAG Vector Strategy'', success = True, duration = 12,
           error = Some ''No data returned'',
           details = Some (RagVectorDetails 0
                       (Some \<lparr>primary_ms = None, fallback_ms = None, total_ms = 42\<rparr>) ''rag_vector'')\<rparr>],
       clock = 12,
       calls =
         [DbSelect (RecentQuery 0 [(''area'', ''tampa-bay''), (''region'', ''FL'')] 1),
          HttpPost ''/api/search/rag_vector''
            \<lparr>query = ''pizza deals today'', area = Some ''tampa-bay'', region = Some ''FL'',
             country = Some ''US'', timeline = Some ''today'', category = None,
             enableFallbacks = Some False, maxFallbacks = None, deviceId = None,
             buttonClickCount = None\<rparr>],
       logged = []\<rparr>)"
    by (simp add: testRagVectorStrategy_def testRagVectorStrategy_try_def testRagVector_def
        getRecentCacheEntry_def supabase_select_def searchWithStrategy_def client_post_def
        recent_filters_def eq_filter_def truthy_def or_else_def str_or_def io_defs
        world_answering_def example_config_def ok_body_def initial_state_def)
  show ?thesis
    unfolding run by (simp add: generateReport_def Let_def)
qed

subsection \<open>Alert dispatcher\<close>




end
